theory Spec2Isabelle
  imports Complex_Main "HOL-Library.Word" "HOL-Library.Char_ord" "HOL-Library.List_Lexorder"
begin

section \<open>Data model\<close>

text \<open>
  A \<open>Blob\<close> is a byte sequence with a declared media type, its \<open>type\<close> (here
  \<open>btype\<close>). \<open>new Blob(parts, { type })\<close> concatenates the parts in order; the
  constructor does not keep the \<open>type\<close> option as given: a string with a character
  outside U+0020 to U+007E becomes the empty string, any other string is converted to
  ASCII lower case.
\<close>

type_synonym byte = "8 word"

record Blob =
  bytes :: "byte list"
  btype :: string

definition blob_size :: "Blob \<Rightarrow> nat" where
  "blob_size b = length (bytes b)"

definition printable :: "char \<Rightarrow> bool" where
  "printable c = (0x20 \<le> (of_char c :: nat) \<and> (of_char c :: nat) \<le> 0x7E)"

definition is_upper :: "char \<Rightarrow> bool" where
  "is_upper c = (0x41 \<le> (of_char c :: nat) \<and> (of_char c :: nat) \<le> 0x5A)"

definition ascii_lower :: "char \<Rightarrow> char" where
  "ascii_lower c = (if is_upper c then char_of ((of_char c :: nat) + 0x20) else c)"

definition normalize_type :: "string \<Rightarrow> string" where
  "normalize_type t = (if list_all printable t then map ascii_lower t else [])"

definition new_Blob :: "Blob list \<Rightarrow> string \<Rightarrow> Blob" where
  "new_Blob parts ty = \<lparr>bytes = concat (map bytes parts), btype = normalize_type ty\<rparr>"

text \<open>\<open>RecordingResult\<close> of recorder.ts.\<close>

record RecordingResult =
  blob :: Blob
  mimeType :: string
  durationMs :: int

text \<open>\<open>TestType\<close> and \<open>Attempt\<close> of db.ts (the field \<open>id\<close> is \<open>attempt_id\<close> here).\<close>

datatype TestType = pushup | plank | squat | vjump | sprint

record Attempt =
  attempt_id :: string
  testType :: TestType
  createdAt :: string
  verified :: bool
  scoreText :: string
  video :: "Blob option"
  videoMimeType :: "string option"
  videoDurationMs :: "int option"

section \<open>recorder.ts\<close>

subsection \<open>The platform's MediaRecorder and MediaStream\<close>

text \<open>
  The browser is a parameter of the model: which types \<open>MediaRecorder.isTypeSupported\<close>
  accepts, and what \<open>recorder.mimeType\<close> reads for a recorder built with a given
  \<open>mimeType\<close> option (\<open>None\<close>: built without options).
\<close>

record Platform =
  isTypeSupported :: "string \<Rightarrow> bool"
  reportedMimeType :: "string option \<Rightarrow> string"

datatype RecordingState = inactive | recording | paused

datatype 'a promise = Pending | Fulfilled 'a | Rejected string

text \<open>
  One \<open>MediaRecorder\<close> together with the variables that the closures of
  \<open>recordVideo\<close> capture (\<open>chosen\<close>, \<open>chunks\<close>, \<open>startedAt\<close>, the \<open>done\<close> promise and
  the pending timeout). \<open>stopQueued\<close> says that \<open>recorder.stop()\<close> has queued the task
  that will dispatch the "stop" event; \<open>stopSignals\<close> counts the calls of
  \<open>recorder.stop()\<close>.
\<close>

record MediaRecorder =
  rstream :: nat
  chosen :: "string option"
  rmimeType :: string
  rstate :: RecordingState
  stopQueued :: bool
  stopSignals :: nat
  chunks :: "Blob list"
  startedAt :: rat
  donePromise :: "RecordingResult promise"
  timeout :: "int option"

text \<open>
  A \<open>MediaStream\<close>: one flag per track (\<open>True\<close>: live), and the number of times
  \<open>stopCamera\<close> ran on it.
\<close>

record MediaStream =
  tracks :: "bool list"
  releases :: nat

text \<open>
  \<open>MediaRecorder.stop()\<close>: on an inactive recorder nothing happens, otherwise the
  recorder becomes inactive at once and the "stop" event is queued.
\<close>

definition recorder_stop :: "MediaRecorder \<Rightarrow> MediaRecorder" where
  "recorder_stop r =
     (if rstate r = inactive then r\<lparr>stopSignals := Suc (stopSignals r)\<rparr>
      else r\<lparr>rstate := inactive, stopQueued := True, stopSignals := Suc (stopSignals r)\<rparr>)"

subsection \<open>pickBestMimeType\<close>

definition candidates :: "string list" where
  "candidates =
     [''video/webm;codecs=vp9'', ''video/webm;codecs=vp8'', ''video/webm'', ''video/mp4'']"

definition pickBestMimeType :: "(string \<Rightarrow> bool) \<Rightarrow> string option" where
  "pickBestMimeType supported = find supported candidates"

subsection \<open>stopCamera\<close>

definition stopCamera :: "MediaStream \<Rightarrow> MediaStream" where
  "stopCamera s = s\<lparr>tracks := map (\<lambda>_. False) (tracks s), releases := Suc (releases s)\<rparr>"

subsection \<open>recordVideo\<close>

text \<open>JavaScript truthiness of \<open>string | undefined\<close>.\<close>

definition truthy :: "string option \<Rightarrow> bool" where
  "truthy v = (case v of None \<Rightarrow> False | Some s \<Rightarrow> s \<noteq> [])"

text \<open>
  \<open>recordVideo(stream, maxDurationMs = 90_000)\<close> up to its \<open>return\<close>: the recorder is
  built with the chosen type (or without options), has started, and the timeout is set.
  \<open>now\<close> is the reading of \<open>performance.now()\<close>.
\<close>

definition recordVideo :: "Platform \<Rightarrow> rat \<Rightarrow> nat \<Rightarrow> int option \<Rightarrow> MediaRecorder" where
  "recordVideo P now stream maxDurationMs =
     (let c = pickBestMimeType (isTypeSupported P) in
      \<lparr>rstream = stream,
       chosen = c,
       rmimeType = reportedMimeType P (if truthy c then c else None),
       rstate = recording,
       stopQueued = False,
       stopSignals = 0,
       chunks = [],
       startedAt = now,
       donePromise = Pending,
       timeout = Some (case maxDurationMs of None \<Rightarrow> 90000 | Some d \<Rightarrow> d)\<rparr>)"

text \<open>The "dataavailable" listener; \<open>None\<close> is an event without data.\<close>

definition dataavailable_listener :: "Blob option \<Rightarrow> MediaRecorder \<Rightarrow> MediaRecorder" where
  "dataavailable_listener d r =
     (case d of
        None \<Rightarrow> r
      | Some b \<Rightarrow> if blob_size b > 0 then r\<lparr>chunks := chunks r @ [b]\<rparr> else r)"

text \<open>A promise is settled once; later calls of \<open>resolve\<close> and \<open>reject\<close> do nothing.\<close>

definition resolve :: "RecordingResult \<Rightarrow> MediaRecorder \<Rightarrow> MediaRecorder" where
  "resolve v r = (if donePromise r = Pending then r\<lparr>donePromise := Fulfilled v\<rparr> else r)"

definition reject :: "string \<Rightarrow> MediaRecorder \<Rightarrow> MediaRecorder" where
  "reject e r = (if donePromise r = Pending then r\<lparr>donePromise := Rejected e\<rparr> else r)"

definition actualMimeType :: "MediaRecorder \<Rightarrow> string" where
  "actualMimeType r =
     (if rmimeType r \<noteq> [] then rmimeType r
      else if truthy (chosen r) then the (chosen r)
      else ''video/webm'')"

definition stop_result :: "rat \<Rightarrow> MediaRecorder \<Rightarrow> RecordingResult" where
  "stop_result endedAt r =
     \<lparr>blob = new_Blob (chunks r) (actualMimeType r),
      mimeType = actualMimeType r,
      durationMs = max 0 (round (endedAt - startedAt r))\<rparr>"

definition stop_listener :: "rat \<Rightarrow> MediaRecorder \<Rightarrow> MediaRecorder" where
  "stop_listener endedAt r = resolve (stop_result endedAt r) r"

definition error_listener :: "MediaRecorder \<Rightarrow> MediaRecorder" where
  "error_listener r = reject ''MediaRecorder error'' r"

text \<open>The timeout's callback and the controller's \<open>stop\<close>.\<close>

definition timeout_callback :: "MediaRecorder \<Rightarrow> MediaRecorder" where
  "timeout_callback r = (if rstate r = recording then recorder_stop r else r)"

definition controller_stop :: "MediaRecorder \<Rightarrow> MediaRecorder" where
  "controller_stop r = (if rstate r = recording then recorder_stop r else r)"

subsection \<open>The earlier recordVideo (no timer, no codec fallback list)\<close>

definition mimeType_v1 :: "(string \<Rightarrow> bool) \<Rightarrow> string" where
  "mimeType_v1 supported =
     (if supported ''video/webm;codecs=vp9'' then ''video/webm;codecs=vp9''
      else if supported ''video/webm;codecs=vp8'' then ''video/webm;codecs=vp8''
      else ''video/webm'')"

definition onstop_v1 :: "(string \<Rightarrow> bool) \<Rightarrow> Blob list \<Rightarrow> rat \<Rightarrow> rat \<Rightarrow> RecordingResult" where
  "onstop_v1 supported cs started endedAt =
     \<lparr>blob = new_Blob cs (mimeType_v1 supported),
      mimeType = mimeType_v1 supported,
      durationMs = max 0 (round (endedAt - started))\<rparr>"

section \<open>db.ts\<close>

text \<open>
  The origin's storage holds the database \<open>win_db\<close> (\<open>None\<close>: not created yet) with
  its object store \<open>attempts\<close>, key path \<open>id\<close> (\<open>None\<close>: the store does not exist).
  The store keeps its records in key order. \<open>connections\<close> counts the handles that
  \<open>openDB\<close> has returned; a handle is its number.

  \<open>openDB(name, version, { upgrade })\<close>: a database that does not exist counts as
  version 0 without stores. Asking for a version below the stored one is refused with a
  \<open>VersionError\<close>; asking for a higher one runs \<open>upgrade\<close> on the database at the new
  version; asking for the stored one opens it as it is.
\<close>

record Database =
  version :: nat
  attempts :: "Attempt list option"

record Storage =
  win_db :: "Database option"
  connections :: nat

datatype error = NotFoundError | VersionError

definition upgrade :: "Database \<Rightarrow> Database" where
  "upgrade db = (if attempts db = None then db\<lparr>attempts := Some []\<rparr> else db)"

definition openDB ::
  "nat \<Rightarrow> (Database \<Rightarrow> Database) \<Rightarrow> Storage \<Rightarrow> (error + nat) \<times> Storage" where
  "openDB ver upg sto =
     (let old = (case win_db sto of
                   None \<Rightarrow> \<lparr>version = 0, attempts = None\<rparr>
                 | Some d \<Rightarrow> d)
      in if ver < version old then (Inl VersionError, sto)
         else
           (let db = (if version old < ver then upg (old\<lparr>version := ver\<rparr>) else old)
            in (Inr (connections sto),
                sto\<lparr>win_db := Some db, connections := Suc (connections sto)\<rparr>)))"

fun store_put :: "Attempt \<Rightarrow> Attempt list \<Rightarrow> Attempt list" where
  "store_put a [] = [a]"
| "store_put a (b # bs) =
     (if attempt_id a = attempt_id b then a # bs
      else if attempt_id a < attempt_id b then a # b # bs
      else b # store_put a bs)"

definition store_get :: "string \<Rightarrow> Attempt list \<Rightarrow> Attempt option" where
  "store_get k xs = find (\<lambda>a. attempt_id a = k) xs"

definition db_put :: "Attempt \<Rightarrow> Storage \<Rightarrow> error + Storage" where
  "db_put a sto =
     (case win_db sto of
        None \<Rightarrow> Inl NotFoundError
      | Some d \<Rightarrow>
          (case attempts d of
             None \<Rightarrow> Inl NotFoundError
           | Some xs \<Rightarrow> Inr (sto\<lparr>win_db := Some (d\<lparr>attempts := Some (store_put a xs)\<rparr>)\<rparr>)))"

definition db_getAll :: "Storage \<Rightarrow> error + Attempt list" where
  "db_getAll sto =
     (case win_db sto of
        None \<Rightarrow> Inl NotFoundError
      | Some d \<Rightarrow> (case attempts d of None \<Rightarrow> Inl NotFoundError | Some xs \<Rightarrow> Inr xs))"

definition db_get :: "string \<Rightarrow> Storage \<Rightarrow> error + Attempt option" where
  "db_get k sto =
     (case win_db sto of
        None \<Rightarrow> Inl NotFoundError
      | Some d \<Rightarrow>
          (case attempts d of None \<Rightarrow> Inl NotFoundError | Some xs \<Rightarrow> Inr (store_get k xs)))"

text \<open>The module: its variable \<open>dbInstance\<close> and the storage it works on.\<close>

record DbModule =
  dbInstance :: "nat option"
  storage :: Storage

text \<open>
  \<open>getDb\<close> is an async function: a call runs up to \<open>await openDB(...)\<close>, and the
  rest runs when the open has settled; other calls can start in between.
  \<open>getDb_start\<close> is the first part: with a handle in \<open>dbInstance\<close> the call returns
  it (\<open>Some\<close>), otherwise it waits for \<open>openDB\<close> (\<open>None\<close>). \<open>getDb_resume\<close> is the
  open and the rest of the call. \<open>getDb\<close> is a call during which no other call runs.
\<close>

definition getDb_start :: "DbModule \<Rightarrow> nat option" where
  "getDb_start m = dbInstance m"

definition getDb_resume :: "DbModule \<Rightarrow> (error + nat) \<times> DbModule" where
  "getDb_resume m =
     (case openDB 1 upgrade (storage m) of
        (Inl e, sto) \<Rightarrow> (Inl e, m\<lparr>storage := sto\<rparr>)
      | (Inr h, sto) \<Rightarrow> (Inr h, m\<lparr>dbInstance := Some h, storage := sto\<rparr>))"

definition getDb :: "DbModule \<Rightarrow> (error + nat) \<times> DbModule" where
  "getDb m =
     (case getDb_start m of
        Some h \<Rightarrow> (Inr h, m)
      | None \<Rightarrow> getDb_resume m)"

definition saveAttempt :: "Attempt \<Rightarrow> DbModule \<Rightarrow> (error + unit) \<times> DbModule" where
  "saveAttempt attempt m =
     (case getDb m of
        (Inl e, m1) \<Rightarrow> (Inl e, m1)
      | (Inr db, m1) \<Rightarrow>
          (case db_put attempt (storage m1) of
             Inl e \<Rightarrow> (Inl e, m1)
           | Inr sto \<Rightarrow> (Inr (), m1\<lparr>storage := sto\<rparr>)))"

definition listAttempts :: "DbModule \<Rightarrow> (error + Attempt list) \<times> DbModule" where
  "listAttempts m =
     (case getDb m of
        (Inl e, m1) \<Rightarrow> (Inl e, m1)
      | (Inr db, m1) \<Rightarrow> (db_getAll (storage m1), m1))"

definition getAttempt :: "string \<Rightarrow> DbModule \<Rightarrow> (error + Attempt option) \<times> DbModule" where
  "getAttempt k m =
     (case getDb m of
        (Inl e, m1) \<Rightarrow> (Inl e, m1)
      | (Inr db, m1) \<Rightarrow> (db_get k (storage m1), m1))"

text \<open>The other \<open>getDb\<close> of the file: no module variable, one \<open>openDB\<close> per call.\<close>

definition upgrade_v2 :: "Database \<Rightarrow> Database" where
  "upgrade_v2 db = db\<lparr>attempts := Some []\<rparr>"

definition getDb_v2 :: "Storage \<Rightarrow> (error + nat) \<times> Storage" where
  "getDb_v2 sto = openDB 1 upgrade_v2 sto"

section \<open>main.ts\<close>

text \<open>
  The module variables, the parts of the page that the handlers read or write, and the
  objects of the platform that they refer to. A stream or a recorder is referred to by
  its index in \<open>streams\<close> or \<open>recorders\<close>; an object URL by its index in
  \<open>objectUrls\<close>. \<open>pendingCamera\<close> counts the calls of \<open>getUserMedia\<close> that have
  not settled yet.
\<close>

record App =
  currentStream :: "nat option"
  currentRecording :: "nat option"
  isCancelling :: bool
  currentTestType :: "TestType option"
  recordedVideo :: "RecordingResult option"
  lastPreviewUrl :: "nat option"
  startCameraBtn_disabled :: bool
  startRecordBtn_disabled :: bool
  stopRecordBtn_disabled :: bool
  saveSection_shown :: bool
  recordUI_shown :: bool
  testSelectSection_shown :: bool
  scoreInput_value :: string
  preview_srcObject :: "nat option"
  preview_src :: "nat option"
  preview_controls :: bool
  alerts :: "string list"
  attemptsContainer :: "Attempt list"
  streams :: "MediaStream list"
  recorders :: "MediaRecorder list"
  pendingCamera :: nat
  objectUrls :: "Blob list"
  revokedUrls :: "nat list"
  dbm :: DbModule

definition stopCamera_at :: "nat \<Rightarrow> App \<Rightarrow> App" where
  "stopCamera_at s a = a\<lparr>streams := (streams a)[s := stopCamera (streams a ! s)]\<rparr>"

definition setPreviewFromBlob :: "Blob \<Rightarrow> App \<Rightarrow> App" where
  "setPreviewFromBlob b a =
     (let a1 = (case lastPreviewUrl a of
                  Some u \<Rightarrow> a\<lparr>revokedUrls := revokedUrls a @ [u]\<rparr>
                | None \<Rightarrow> a);
          u' = length (objectUrls a1)
      in a1\<lparr>objectUrls := objectUrls a1 @ [b],
             lastPreviewUrl := Some u',
             preview_srcObject := None,
             preview_src := Some u',
             preview_controls := True\<rparr>)"

definition openTestRecorder :: "TestType \<Rightarrow> App \<Rightarrow> App" where
  "openTestRecorder t a =
     a\<lparr>currentTestType := Some t,
       testSelectSection_shown := False,
       recordUI_shown := True,
       saveSection_shown := False,
       recordedVideo := None,
       startCameraBtn_disabled := False,
       startRecordBtn_disabled := True,
       stopRecordBtn_disabled := True\<rparr>"

text \<open>
  The click on Start Camera runs up to the \<open>await\<close>; the rest runs when
  \<open>startCamera\<close> settles: with a new stream of \<open>n\<close> live tracks, or with an error.
\<close>

definition startCamera_click :: "App \<Rightarrow> App" where
  "startCamera_click a =
     (let a1 = (case currentStream a of Some s \<Rightarrow> stopCamera_at s a | None \<Rightarrow> a)
      in a1\<lparr>pendingCamera := Suc (pendingCamera a1)\<rparr>)"

definition startCamera_resolved :: "nat \<Rightarrow> App \<Rightarrow> App" where
  "startCamera_resolved n a =
     a\<lparr>pendingCamera := pendingCamera a - 1,
       streams := streams a @ [\<lparr>tracks = replicate n True, releases = 0\<rparr>],
       preview_srcObject := Some (length (streams a)),
       currentStream := Some (length (streams a)),
       startCameraBtn_disabled := True,
       startRecordBtn_disabled := False\<rparr>"

definition startCamera_rejected :: "App \<Rightarrow> App" where
  "startCamera_rejected a =
     a\<lparr>pendingCamera := pendingCamera a - 1,
       alerts := alerts a @ [''Camera access denied or unavailable.'']\<rparr>"

definition startRecord_click :: "Platform \<Rightarrow> rat \<Rightarrow> App \<Rightarrow> App" where
  "startRecord_click P now a =
     (case currentStream a of
        None \<Rightarrow> a
      | Some s \<Rightarrow>
          a\<lparr>isCancelling := False,
            recorders := recorders a @ [recordVideo P now s (Some 90000)],
            currentRecording := Some (length (recorders a)),
            startRecordBtn_disabled := True,
            stopRecordBtn_disabled := False\<rparr>)"

text \<open>The two callbacks on \<open>currentRecording.done\<close>.\<close>

definition done_then :: "RecordingResult \<Rightarrow> App \<Rightarrow> App" where
  "done_then result a =
     (if isCancelling a then a
      else
        (let a1 = a\<lparr>recordedVideo := Some result\<rparr>;
             a2 = (case currentStream a1 of Some s \<Rightarrow> stopCamera_at s a1 | None \<Rightarrow> a1);
             a3 = a2\<lparr>currentStream := None\<rparr>;
             a4 = setPreviewFromBlob (blob result) a3
         in a4\<lparr>saveSection_shown := True, stopRecordBtn_disabled := True\<rparr>))"

definition done_catch :: "App \<Rightarrow> App" where
  "done_catch a =
     a\<lparr>alerts := alerts a @ [''Recording failed.''],
       stopRecordBtn_disabled := True,
       startRecordBtn_disabled := False,
       startCameraBtn_disabled := False\<rparr>"

definition stopRecord_click :: "App \<Rightarrow> App" where
  "stopRecord_click a =
     (case currentRecording a of
        None \<Rightarrow> a
      | Some r \<Rightarrow> a\<lparr>recorders := (recorders a)[r := controller_stop (recorders a ! r)]\<rparr>)"

definition resetRecorder :: "App \<Rightarrow> App" where
  "resetRecorder a =
     (let a1 = (case lastPreviewUrl a of
                  Some u \<Rightarrow> a\<lparr>revokedUrls := revokedUrls a @ [u], lastPreviewUrl := None\<rparr>
                | None \<Rightarrow> a);
          a2 = (case currentStream a1 of
                  Some s \<Rightarrow> (stopCamera_at s a1)\<lparr>currentStream := None\<rparr>
                | None \<Rightarrow> a1)
      in a2\<lparr>preview_srcObject := None,
             preview_src := None,
             preview_controls := False,
             recordUI_shown := False,
             testSelectSection_shown := True,
             startCameraBtn_disabled := False,
             startRecordBtn_disabled := True,
             stopRecordBtn_disabled := True,
             saveSection_shown := False,
             scoreInput_value := [],
             currentTestType := None,
             recordedVideo := None,
             currentRecording := None,
             isCancelling := False\<rparr>)"

definition back_click :: "App \<Rightarrow> App" where
  "back_click a =
     (let a1 = (case currentRecording a of
                  None \<Rightarrow> a
                | Some r \<Rightarrow>
                    if rstate (recorders a ! r) = recording
                    then a\<lparr>isCancelling := True,
                           recorders := (recorders a)[r := controller_stop (recorders a ! r)]\<rparr>
                    else a)
      in resetRecorder a1)"

definition loadAttempts :: "App \<Rightarrow> App" where
  "loadAttempts a =
     (let (res, m) = listAttempts (dbm a) in
      case res of
        Inl e \<Rightarrow> a\<lparr>dbm := m\<rparr>
      | Inr xs \<Rightarrow> a\<lparr>dbm := m, attemptsContainer := xs\<rparr>)"

text \<open>\<open>String.prototype.trim\<close>, on the white space of the 8-bit range.\<close>

definition is_space :: "char \<Rightarrow> bool" where
  "is_space c = (c \<in> set [CHR 0x20, CHR 0x09, CHR 0x0A, CHR 0x0B, CHR 0x0C, CHR 0x0D, CHR 0xA0])"

definition trim :: "string \<Rightarrow> string" where
  "trim s = rev (dropWhile is_space (rev (dropWhile is_space s)))"

text \<open>
  The click on Save; \<open>uuid\<close> and \<open>now\<close> are what \<open>crypto.randomUUID()\<close> and
  \<open>new Date().toISOString()\<close> return. When \<open>saveAttempt\<close> rejects, the rest of the
  handler does not run.
\<close>

definition saveAttempt_click :: "string \<Rightarrow> string \<Rightarrow> App \<Rightarrow> App" where
  "saveAttempt_click uuid now a =
     (case (recordedVideo a, currentTestType a) of
        (Some rv, Some t) \<Rightarrow>
          (let score = trim (scoreInput_value a) in
           if score = [] then a\<lparr>alerts := alerts a @ [''Please enter a score.'']\<rparr>
           else
             (let attempt = \<lparr>attempt_id = uuid, testType = t, createdAt = now,
                             verified = False, scoreText = score,
                             video = Some (blob rv),
                             videoMimeType = Some (mimeType rv),
                             videoDurationMs = Some (durationMs rv)\<rparr>;
                  (res, m) = saveAttempt attempt (dbm a)
              in case res of
                   Inl e \<Rightarrow> a\<lparr>dbm := m\<rparr>
                 | Inr u \<Rightarrow>
                     loadAttempts
                       (resetRecorder (a\<lparr>dbm := m, alerts := alerts a @ [''Attempt saved!'']\<rparr>))))
      | _ \<Rightarrow> a)"

subsection \<open>Events\<close>

text \<open>
  What can happen to the page: clicks (a disabled button receives none), typing into the
  score field, the settling of \<open>getUserMedia\<close>, and the recorder's events. Each handler
  runs to its end before the next event is handled. The platform dispatches "stop" for a
  recorder only after \<open>recorder.stop()\<close> or an error has queued it, and later than the
  handler that called \<open>stop()\<close>; it delivers data while the recorder records or its stop
  is queued; an error makes a recording recorder inactive, runs the "error" listeners and
  queues "stop"; a timeout runs once. The callbacks on \<open>done\<close> run when the promise
  settles, before the next event.
\<close>

datatype Event =
    TestClick TestType
  | StartCameraClick
  | CameraGranted nat
  | CameraDenied
  | StartRecordClick rat
  | StopRecordClick
  | ScoreInput string
  | SaveAttemptClick string string
  | BackClick
  | DataAvailable nat "Blob option"
  | RecorderStop nat rat
  | RecorderError nat
  | AutoStopTimer nat

definition dataavailable_event :: "nat \<Rightarrow> Blob option \<Rightarrow> App \<Rightarrow> App" where
  "dataavailable_event i d a =
     (if i < length (recorders a) \<and>
         (rstate (recorders a ! i) = recording \<or> stopQueued (recorders a ! i))
      then a\<lparr>recorders := (recorders a)[i := dataavailable_listener d (recorders a ! i)]\<rparr>
      else a)"

definition stop_event :: "nat \<Rightarrow> rat \<Rightarrow> App \<Rightarrow> App" where
  "stop_event i endedAt a =
     (if i < length (recorders a) \<and> stopQueued (recorders a ! i)
      then
        (let r = (recorders a ! i)\<lparr>stopQueued := False\<rparr>;
             a' = a\<lparr>recorders := (recorders a)[i := stop_listener endedAt r]\<rparr>
         in if donePromise r = Pending then done_then (stop_result endedAt r) a' else a')
      else a)"

definition error_event :: "nat \<Rightarrow> App \<Rightarrow> App" where
  "error_event i a =
     (if i < length (recorders a) \<and> rstate (recorders a ! i) = recording
      then
        (let r = (recorders a ! i)\<lparr>rstate := inactive, stopQueued := True\<rparr>;
             a' = a\<lparr>recorders := (recorders a)[i := error_listener r]\<rparr>
         in if donePromise r = Pending then done_catch a' else a')
      else a)"

definition timeout_event :: "nat \<Rightarrow> App \<Rightarrow> App" where
  "timeout_event i a =
     (if i < length (recorders a) \<and> timeout (recorders a ! i) \<noteq> None
      then a\<lparr>recorders :=
               (recorders a)[i := timeout_callback ((recorders a ! i)\<lparr>timeout := None\<rparr>)]\<rparr>
      else a)"

fun step :: "Platform \<Rightarrow> Event \<Rightarrow> App \<Rightarrow> App" where
  "step P (TestClick t) a = openTestRecorder t a"
| "step P StartCameraClick a = (if startCameraBtn_disabled a then a else startCamera_click a)"
| "step P (CameraGranted n) a = (if pendingCamera a = 0 then a else startCamera_resolved n a)"
| "step P CameraDenied a = (if pendingCamera a = 0 then a else startCamera_rejected a)"
| "step P (StartRecordClick now) a =
     (if startRecordBtn_disabled a then a else startRecord_click P now a)"
| "step P StopRecordClick a = (if stopRecordBtn_disabled a then a else stopRecord_click a)"
| "step P (ScoreInput s) a = a\<lparr>scoreInput_value := s\<rparr>"
| "step P (SaveAttemptClick uuid now) a = saveAttempt_click uuid now a"
| "step P BackClick a = back_click a"
| "step P (DataAvailable i d) a = dataavailable_event i d a"
| "step P (RecorderStop i endedAt) a = stop_event i endedAt a"
| "step P (RecorderError i) a = error_event i a"
| "step P (AutoStopTimer i) a = timeout_event i a"

definition run :: "Platform \<Rightarrow> Event list \<Rightarrow> App \<Rightarrow> App" where
  "run P es a = fold (step P) es a"

text \<open>
  The page after loading: the module's initial values, then \<open>loadAttempts()\<close>. The
  buttons and sections start as \<open>resetRecorder\<close> leaves them; \<open>openTestRecorder\<close> sets
  them again before the recorder is used.
\<close>

definition fresh_module :: DbModule where
  "fresh_module = \<lparr>dbInstance = None, storage = \<lparr>win_db = None, connections = 0\<rparr>\<rparr>"

definition initial :: App where
  "initial =
     \<lparr>currentStream = None, currentRecording = None, isCancelling = False,
      currentTestType = None, recordedVideo = None, lastPreviewUrl = None,
      startCameraBtn_disabled = False, startRecordBtn_disabled = True,
      stopRecordBtn_disabled = True, saveSection_shown = False, recordUI_shown = False,
      testSelectSection_shown = True, scoreInput_value = [], preview_srcObject = None,
      preview_src = None, preview_controls = False, alerts = [], attemptsContainer = [],
      streams = [], recorders = [], pendingCamera = 0, objectUrls = [], revokedUrls = [],
      dbm = fresh_module\<rparr>"

definition loaded :: App where
  "loaded = loadAttempts initial"

section \<open>Notions used to state the properties\<close>

subsection \<open>The store\<close>

text \<open>
  A module state in which a \<open>put\<close> can succeed: either the database does not exist and
  no handle is held (the first \<open>getDb\<close> will create it), or it exists at version 1
  with its store.
  \<open>stored\<close> reads the records of the store, \<open>save_all\<close> saves a list of attempts one
  after the other, and \<open>call\<close> is one call of an exported function of db.ts.
\<close>

definition store_ready :: "DbModule \<Rightarrow> bool" where
  "store_ready m =
     (case win_db (storage m) of
        None \<Rightarrow> dbInstance m = None
      | Some d \<Rightarrow> version d = 1 \<and> attempts d \<noteq> None)"

definition stored :: "DbModule \<Rightarrow> Attempt list" where
  "stored m =
     (case win_db (storage m) of
        None \<Rightarrow> []
      | Some d \<Rightarrow> (case attempts d of None \<Rightarrow> [] | Some xs \<Rightarrow> xs))"

definition save_all :: "Attempt list \<Rightarrow> DbModule \<Rightarrow> DbModule" where
  "save_all as m = fold (\<lambda>a m. snd (saveAttempt a m)) as m"

datatype DbCall = CallGetDb | CallSave Attempt | CallList | CallGet string

fun call :: "DbCall \<Rightarrow> DbModule \<Rightarrow> DbModule" where
  "call CallGetDb m = snd (getDb m)"
| "call (CallSave a) m = snd (saveAttempt a m)"
| "call CallList m = snd (listAttempts m)"
| "call (CallGet k) m = snd (getAttempt k m)"

subsection \<open>Concrete inputs\<close>

text \<open>Two attempts, and a module whose storage holds the database at version 2.\<close>

definition a1 :: Attempt where
  "a1 = \<lparr>attempt_id = ''a1'', testType = plank, createdAt = ''2024-05-01T10:00:00.000Z'',
          verified = False, scoreText = ''62s'',
          video = Some \<lparr>bytes = [26, 69, 223, 163], btype = ''video/webm''\<rparr>,
          videoMimeType = Some ''video/webm'', videoDurationMs = Some 62000\<rparr>"

definition a2 :: Attempt where
  "a2 = \<lparr>attempt_id = ''a0'', testType = pushup, createdAt = ''2024-05-01T10:05:00.000Z'',
          verified = False, scoreText = ''24 reps'', video = None,
          videoMimeType = None, videoDurationMs = None\<rparr>"

definition newer_module :: DbModule where
  "newer_module =
     \<lparr>dbInstance = None,
      storage = \<lparr>win_db = Some \<lparr>version = 2, attempts = Some []\<rparr>, connections = 0\<rparr>\<rparr>"

subsection \<open>Recorded data\<close>

text \<open>The non-empty chunks among the data of a sequence of "dataavailable" events.\<close>

fun emitted_nonempty :: "Blob option list \<Rightarrow> Blob list" where
  "emitted_nonempty [] = []"
| "emitted_nonempty (None # ds) = emitted_nonempty ds"
| "emitted_nonempty (Some b # ds) =
     (if blob_size b > 0 then b # emitted_nonempty ds else emitted_nonempty ds)"

subsection \<open>Concrete platforms and chunks\<close>

text \<open>
  A browser that supports only vp9 and whose recorders report an empty \<open>mimeType\<close>; a
  browser that supports none of the candidates and records in its own default format,
  reporting the type it was asked for otherwise; one that supports plain webm; and one
  that supports only mp4 and reports the codec string of what it records.
\<close>

definition P_vp9_silent :: Platform where
  "P_vp9_silent =
     \<lparr>isTypeSupported = (\<lambda>t. t = ''video/webm;codecs=vp9''),
      reportedMimeType = (\<lambda>_. [])\<rparr>"

definition P_none :: Platform where
  "P_none =
     \<lparr>isTypeSupported = (\<lambda>t. False),
      reportedMimeType =
        (\<lambda>c. case c of None \<Rightarrow> ''video/x-matroska;codecs=avc1'' | Some t \<Rightarrow> t)\<rparr>"

definition P_webm :: Platform where
  "P_webm =
     \<lparr>isTypeSupported = (\<lambda>t. t = ''video/webm''),
      reportedMimeType = (\<lambda>c. case c of None \<Rightarrow> ''video/webm;codecs=vp8'' | Some t \<Rightarrow> t)\<rparr>"

definition P_mp4 :: Platform where
  "P_mp4 =
     \<lparr>isTypeSupported = (\<lambda>t. t = ''video/mp4''),
      reportedMimeType = (\<lambda>_. ''video/mp4;codecs=avc1.42E01E'')\<rparr>"

definition empty_chunk :: Blob where
  "empty_chunk = \<lparr>bytes = [], btype = ''video/webm''\<rparr>"

definition chunk1 :: Blob where
  "chunk1 = \<lparr>bytes = [26, 69, 223], btype = ''video/webm''\<rparr>"

subsection \<open>One recording session\<close>

text \<open>
  The state just after the click on Start Record: stream \<open>s\<close> is the current stream and
  has not been released, recorder \<open>r\<close> is the current recording, it records, no stop has
  been signalled, its timeout is pending and \<open>done\<close> is not settled.
\<close>

definition recording_session :: "nat \<Rightarrow> nat \<Rightarrow> App \<Rightarrow> bool" where
  "recording_session r s a =
     (r < length (recorders a) \<and> s < length (streams a) \<and>
      currentStream a = Some s \<and> currentRecording a = Some r \<and>
      \<not> isCancelling a \<and> \<not> stopRecordBtn_disabled a \<and>
      rstate (recorders a ! r) = recording \<and> \<not> stopQueued (recorders a ! r) \<and>
      stopSignals (recorders a ! r) = 0 \<and> donePromise (recorders a ! r) = Pending \<and>
      timeout (recorders a ! r) \<noteq> None \<and> releases (streams a ! s) = 0)"

text \<open>
  The requests to end the recording of recorder \<open>r\<close> (its timeout, the Stop button, the
  Back button), and the events of its session: these, its data and its "stop" event.
\<close>

fun termination_request :: "nat \<Rightarrow> Event \<Rightarrow> bool" where
  "termination_request r (AutoStopTimer i) = (i = r)"
| "termination_request r StopRecordClick = True"
| "termination_request r BackClick = True"
| "termination_request r _ = False"

fun session_event :: "nat \<Rightarrow> Event \<Rightarrow> bool" where
  "session_event r (AutoStopTimer i) = (i = r)"
| "session_event r StopRecordClick = True"
| "session_event r BackClick = True"
| "session_event r (RecorderStop i t) = (i = r)"
| "session_event r (DataAvailable i d) = (i = r)"
| "session_event r _ = False"

fun is_stop_event :: "nat \<Rightarrow> Event \<Rightarrow> bool" where
  "is_stop_event r (RecorderStop i t) = (i = r)"
| "is_stop_event r _ = False"

text \<open>
  \<open>stop_confirmed r es\<close>: in the sequence \<open>es\<close>, a "stop" event of recorder \<open>r\<close>
  comes after a request to end its recording (\<open>confirmed_from\<close> with \<open>T\<close> false; \<open>T\<close>
  says that a request came before the sequence).
\<close>

fun confirmed_from :: "nat \<Rightarrow> bool \<Rightarrow> Event list \<Rightarrow> bool" where
  "confirmed_from r T [] = False"
| "confirmed_from r T (e # es) =
     ((T \<and> is_stop_event r e) \<or> confirmed_from r (T \<or> termination_request r e) es)"

definition stop_confirmed :: "nat \<Rightarrow> Event list \<Rightarrow> bool" where
  "stop_confirmed r es = confirmed_from r False es"

text \<open>
  What holds of a session after some of its events, where \<open>T\<close> says that a request to end
  the recording was among them, \<open>B\<close> that a click on Back was, and \<open>C\<close> that a "stop"
  event came after a request.
\<close>

definition session_inv :: "nat \<Rightarrow> nat \<Rightarrow> bool \<Rightarrow> bool \<Rightarrow> bool \<Rightarrow> App \<Rightarrow> bool" where
  "session_inv r s T B C a =
     (r < length (recorders a) \<and> s < length (streams a) \<and> \<not> isCancelling a \<and>
      stopSignals (recorders a ! r) = (if T then 1 else 0) \<and>
      rstate (recorders a ! r) = (if T then inactive else recording) \<and>
      stopQueued (recorders a ! r) = (T \<and> \<not> C) \<and>
      (if C then \<exists>res. donePromise (recorders a ! r) = Fulfilled res
       else donePromise (recorders a ! r) = Pending) \<and>
      (C \<longrightarrow> T) \<and>
      (\<not> T \<longrightarrow> timeout (recorders a ! r) \<noteq> None \<and> \<not> stopRecordBtn_disabled a \<and> \<not> B) \<and>
      currentRecording a = (if B then None else Some r) \<and>
      currentStream a = (if B \<or> C then None else Some s) \<and>
      releases (streams a ! s) = (if B \<or> C then 1 else 0) \<and>
      (B \<or> C \<longrightarrow> True \<notin> set (tracks (streams a ! s))))"

definition session_start :: App where
  "session_start =
     run P_webm [TestClick pushup, StartCameraClick, CameraGranted 1, StartRecordClick 0] loaded"

subsection \<open>Concrete runs\<close>

text \<open>
  A recording cancelled by Back, whose "stop" event follows; the same, where the next
  test is opened before the "stop" event arrives and the clip is then saved; and a
  recording that ends with a recorder error.
\<close>

definition cancel_trace :: "Event list" where
  "cancel_trace =
     [TestClick pushup, StartCameraClick, CameraGranted 1, StartRecordClick 0,
      DataAvailable 0 (Some chunk1), BackClick, DataAvailable 0 (Some chunk1),
      RecorderStop 0 1500]"

definition cancel_save_trace :: "Event list" where
  "cancel_save_trace =
     [TestClick pushup, StartCameraClick, CameraGranted 1, StartRecordClick 0,
      DataAvailable 0 (Some chunk1), BackClick, TestClick plank, RecorderStop 0 1500,
      ScoreInput ''24 reps'', SaveAttemptClick ''a1'' ''2024-05-01T10:00:00.000Z'']"

definition error_trace :: "Event list" where
  "error_trace =
     [TestClick pushup, StartCameraClick, CameraGranted 1, StartRecordClick 0,
      DataAvailable 0 (Some chunk1), RecorderError 0, RecorderStop 0 1500]"

section \<open>Properties\<close>

subsection \<open>The attempt store\<close>

lemma store_get_put: "store_get (attempt_id a) (store_put a xs) = Some a"
  by (induction xs) (simp_all add: store_get_def)

lemma ids_store_put:
  "attempt_id ` set (store_put a xs) = insert (attempt_id a) (attempt_id ` set xs)"
  by (induction xs) auto

lemma length_store_put:
  "attempt_id a \<notin> attempt_id ` set xs \<Longrightarrow> length (store_put a xs) = Suc (length xs)"
  by (induction xs) auto

lemma getDb_ready:
  assumes "store_ready m"
  shows "\<exists>h m' d. getDb m = (Inr h, m') \<and> dbInstance m' = Some h \<and>
           win_db (storage m') = Some d \<and> attempts d = Some (stored m) \<and>
           stored m' = stored m \<and> version d = 1"
  using assms
  by (cases "dbInstance m"; cases "win_db (storage m)")
     (auto simp: getDb_def getDb_start_def getDb_resume_def openDB_def upgrade_def
                 store_ready_def stored_def Let_def
           split: option.splits)

lemma saveAttempt_ready:
  assumes "store_ready m"
  shows "fst (saveAttempt a m) = Inr () \<and> store_ready (snd (saveAttempt a m)) \<and>
         stored (snd (saveAttempt a m)) = store_put a (stored m) \<and>
         dbInstance (snd (saveAttempt a m)) \<noteq> None"
proof -
  from getDb_ready[OF assms] obtain h m' d where "getDb m = (Inr h, m')"
    "dbInstance m' = Some h" "win_db (storage m') = Some d" "attempts d = Some (stored m)"
    "stored m' = stored m" "version d = 1"
    by blast
  then show ?thesis
    by (simp add: saveAttempt_def db_put_def store_ready_def stored_def)
qed

lemma getAttempt_stored:
  assumes "store_ready m"
  shows "fst (getAttempt k m) = Inr (store_get k (stored m))"
proof -
  from getDb_ready[OF assms] obtain h m' d where "getDb m = (Inr h, m')"
    "dbInstance m' = Some h" "win_db (storage m') = Some d" "attempts d = Some (stored m)"
    "stored m' = stored m" "version d = 1"
    by blast
  then show ?thesis
    by (simp add: getAttempt_def db_get_def)
qed

lemma listAttempts_stored:
  assumes "store_ready m"
  shows "fst (listAttempts m) = Inr (stored m)"
proof -
  from getDb_ready[OF assms] obtain h m' d where "getDb m = (Inr h, m')"
    "dbInstance m' = Some h" "win_db (storage m') = Some d" "attempts d = Some (stored m)"
    "stored m' = stored m" "version d = 1"
    by blast
  then show ?thesis
    by (simp add: listAttempts_def db_getAll_def)
qed

text \<open>
  Where the stored database is newer than version 1 and no handle is held, \<open>openDB\<close>
  refuses, and \<open>saveAttempt\<close>, \<open>listAttempts\<close> and \<open>getAttempt\<close> fail with its error
  and leave the module as it was.
\<close>

lemma newer_version_refused:
  assumes "dbInstance m = None" and "win_db (storage m) = Some d" and "1 < version d"
  shows "saveAttempt a m = (Inl VersionError, m) \<and> listAttempts m = (Inl VersionError, m) \<and>
         getAttempt k m = (Inl VersionError, m) \<and> getDb m = (Inl VersionError, m)"
  using assms
  by (simp add: saveAttempt_def listAttempts_def getAttempt_def getDb_def getDb_start_def
                getDb_resume_def openDB_def)

lemma newer_module_refused:
  "fst (saveAttempt a1 newer_module) = Inl VersionError \<and> \<not> store_ready newer_module"
  using newer_version_refused[of newer_module "\<lparr>version = 2, attempts = Some []\<rparr>" a1]
  by (simp add: newer_module_def store_ready_def)

lemma save_all_ready:
  "store_ready m \<Longrightarrow> store_ready (save_all as m) \<and>
     attempt_id ` set (stored (save_all as m)) = attempt_id ` set as \<union> attempt_id ` set (stored m)"
proof (induction as arbitrary: m)
  case Nil
  then show ?case by (simp add: save_all_def)
next
  case (Cons a as)
  from saveAttempt_ready[OF Cons.prems, of a]
  have r: "store_ready (snd (saveAttempt a m))"
    and s: "stored (snd (saveAttempt a m)) = store_put a (stored m)" by simp_all
  from Cons.IH[OF r] s show ?case
    by (auto simp: save_all_def ids_store_put)
qed

lemma save_all_length:
  "store_ready m \<Longrightarrow> distinct (map attempt_id as) \<Longrightarrow>
   attempt_id ` set as \<inter> attempt_id ` set (stored m) = {} \<Longrightarrow>
   length (stored (save_all as m)) = length (stored m) + length as"
proof (induction as arbitrary: m)
  case Nil
  then show ?case by (simp add: save_all_def)
next
  case (Cons a as)
  let ?m = "snd (saveAttempt a m)"
  from saveAttempt_ready[OF Cons.prems(1), of a]
  have r: "store_ready ?m" and s: "stored ?m = store_put a (stored m)" by simp_all
  have d: "distinct (map attempt_id as)" using Cons.prems(2) by simp
  have i: "attempt_id ` set as \<inter> attempt_id ` set (stored ?m) = {}"
    using Cons.prems(2,3) by (auto simp: s ids_store_put)
  have n: "attempt_id a \<notin> attempt_id ` set (stored m)" using Cons.prems(3) by auto
  have "length (stored (save_all as ?m)) = length (stored ?m) + length as"
    by (rule Cons.IH[OF r d i])
  then show ?case using n by (simp add: save_all_def s length_store_put)
qed

lemma fresh_ready: "store_ready fresh_module \<and> stored fresh_module = []"
  by (simp add: store_ready_def stored_def fresh_module_def)

text \<open>
  C7. For every attempt \<open>a\<close>, in every module state in which the store can be written
  (the database does not exist yet and no handle is held, or it exists at version 1 with
  its store), \<open>saveAttempt a\<close> succeeds and \<open>getAttempt\<close> of \<open>a\<close>'s id then returns
  \<open>a\<close> itself, with every field (the video's bytes and type among them) as it was
  given. Starting from the module as loaded, saving \<open>N\<close> attempts with \<open>N\<close> distinct
  ids makes \<open>listAttempts\<close> return \<open>N\<close> records.
\<close>

theorem put_get_roundtrip_and_list_count:
  "(store_ready m \<longrightarrow>
      fst (saveAttempt a m) = Inr () \<and>
      fst (getAttempt (attempt_id a) (snd (saveAttempt a m))) = Inr (Some a)) \<and>
   (distinct (map attempt_id as) \<longrightarrow>
      (\<exists>xs. fst (listAttempts (save_all as fresh_module)) = Inr xs \<and> length xs = length as))"
proof (intro conjI impI)
  assume r: "store_ready m"
  from saveAttempt_ready[OF r, of a] show "fst (saveAttempt a m) = Inr ()" by simp
  from saveAttempt_ready[OF r, of a]
  have r': "store_ready (snd (saveAttempt a m))"
    and s: "stored (snd (saveAttempt a m)) = store_put a (stored m)" by simp_all
  show "fst (getAttempt (attempt_id a) (snd (saveAttempt a m))) = Inr (Some a)"
    by (simp add: getAttempt_stored[OF r'] s store_get_put)
next
  assume d: "distinct (map attempt_id as)"
  have f: "store_ready fresh_module" "stored fresh_module = []" using fresh_ready by simp_all
  have r: "store_ready (save_all as fresh_module)" using save_all_ready[OF f(1)] by simp
  have "length (stored (save_all as fresh_module)) = length as"
    using save_all_length[OF f(1) d] f(2) by simp
  then show "\<exists>xs. fst (listAttempts (save_all as fresh_module)) = Inr xs \<and> length xs = length as"
    using listAttempts_stored[OF r] by simp
qed

theorem put_get_roundtrip_and_list_count_witness:
  "store_ready fresh_module \<and>
   fst (getAttempt ''a1'' (snd (saveAttempt a1 fresh_module))) = Inr (Some a1) \<and>
   distinct (map attempt_id [a1, a2]) \<and>
   (\<exists>xs. fst (listAttempts (save_all [a1, a2] fresh_module)) = Inr xs \<and> length xs = 2)"
proof -
  have r: "store_ready fresh_module" by (simp add: fresh_ready)
  have d: "distinct (map attempt_id [a1, a2])" by (simp add: a1_def a2_def)
  have i: "attempt_id a1 = ''a1''" by (simp add: a1_def)
  from put_get_roundtrip_and_list_count[of fresh_module a1 "[a1, a2]"] r d i
  show ?thesis by (auto simp: numeral_2_eq_2)
qed

subsection \<open>The store handle\<close>

lemma getDb_cached: "dbInstance m = Some h \<Longrightarrow> getDb m = (Inr h, m)"
  by (simp add: getDb_def getDb_start_def)



lemma call_keeps_handle:
  "dbInstance m = Some h \<Longrightarrow>
   dbInstance (call c m) = Some h \<and> connections (storage (call c m)) = connections (storage m)"
  by (cases c)
     (auto simp: getDb_cached saveAttempt_def listAttempts_def getAttempt_def db_put_def
           split: option.splits sum.splits)





text \<open>The other \<open>getDb\<close> of the file opens a new connection at every call.\<close>

lemma getDb_v2_new_handle:
  "fst (getDb_v2 sto) = Inr h \<Longrightarrow> fst (getDb_v2 (snd (getDb_v2 sto))) = Inr (Suc h)"
  by (auto simp: getDb_v2_def openDB_def Let_def upgrade_v2_def split: if_splits option.splits)

text \<open>
  On the page, the handle opened by the first \<open>loadAttempts()\<close> stays the only one,
  whatever happens afterwards.
\<close>

lemma dbm_resetRecorder: "dbm (resetRecorder a) = dbm a"
  by (simp add: resetRecorder_def stopCamera_at_def Let_def split: option.splits)

lemma dbm_done_then: "dbm (done_then res a) = dbm a"
  by (simp add: done_then_def setPreviewFromBlob_def stopCamera_at_def Let_def split: option.splits)

lemma dbm_loadAttempts: "dbm (loadAttempts a) = call CallList (dbm a)"
  by (simp add: loadAttempts_def split: prod.splits sum.splits)

lemma saveAttempt_keeps_handle:
  "dbInstance m = Some h \<Longrightarrow>
   dbInstance (snd (saveAttempt att m)) = Some h \<and>
   connections (storage (snd (saveAttempt att m))) = connections (storage m)"
  using call_keeps_handle[of m h "CallSave att"] by simp

lemma listAttempts_keeps_handle:
  "dbInstance m = Some h \<Longrightarrow>
   dbInstance (snd (listAttempts m)) = Some h \<and>
   connections (storage (snd (listAttempts m))) = connections (storage m)"
  using call_keeps_handle[of m h CallList] by simp

lemma saveAttempt_click_keeps_handle:
  assumes "dbInstance (dbm a) = Some h"
  shows "dbInstance (dbm (saveAttempt_click uuid now a)) = Some h \<and>
         connections (storage (dbm (saveAttempt_click uuid now a))) =
           connections (storage (dbm a))"
  using assms
  by (simp add: saveAttempt_click_def Let_def split_beta dbm_loadAttempts dbm_resetRecorder
                saveAttempt_keeps_handle listAttempts_keeps_handle
           split: option.splits sum.splits)

lemma step_keeps_handle:
  assumes "dbInstance (dbm a) = Some h"
  shows "dbInstance (dbm (step P e a)) = Some h \<and>
         connections (storage (dbm (step P e a))) = connections (storage (dbm a))"
proof (cases e)
  case (SaveAttemptClick uuid now)
  then show ?thesis using saveAttempt_click_keeps_handle[OF assms] by simp
next
  case BackClick
  then show ?thesis using assms
    by (simp add: back_click_def dbm_resetRecorder Let_def split: option.splits)
next
  case (RecorderStop i t)
  then show ?thesis using assms
    by (simp add: stop_event_def dbm_done_then Let_def)
qed (use assms in \<open>simp_all add: openTestRecorder_def startCamera_click_def stopCamera_at_def
      startCamera_resolved_def startCamera_rejected_def startRecord_click_def
      stopRecord_click_def dataavailable_event_def error_event_def done_catch_def
      timeout_event_def Let_def split: option.splits\<close>)

lemma run_keeps_handle:
  "dbInstance (dbm a) = Some h \<Longrightarrow>
   dbInstance (dbm (run P es a)) = Some h \<and>
   connections (storage (dbm (run P es a))) = connections (storage (dbm a))"
proof (induction es arbitrary: a)
  case Nil
  then show ?case by (simp add: run_def)
next
  case (Cons e es)
  from step_keeps_handle[OF Cons.prems, of P e]
  have h: "dbInstance (dbm (step P e a)) = Some h"
    and n: "connections (storage (dbm (step P e a))) = connections (storage (dbm a))"
    by simp_all
  from Cons.IH[OF h] n show ?case by (simp add: run_def)
qed

lemma loaded_handle: "dbInstance (dbm loaded) = Some 0 \<and> connections (storage (dbm loaded)) = 1"
  by code_simp

lemma page_keeps_one_handle:
  "dbInstance (dbm (run P es loaded)) = Some 0 \<and>
   connections (storage (dbm (run P es loaded))) = 1"
  using run_keeps_handle[of loaded 0 P es] loaded_handle by simp

subsection \<open>Chunks\<close>

lemma data_chunks:
  "chunks (fold dataavailable_listener ds r) = chunks r @ emitted_nonempty ds"
  by (induction ds arbitrary: r rule: emitted_nonempty.induct)
     (simp_all add: dataavailable_listener_def)

lemma data_other_fields:
  "donePromise (fold dataavailable_listener ds r) = donePromise r \<and>
   rmimeType (fold dataavailable_listener ds r) = rmimeType r \<and>
   chosen (fold dataavailable_listener ds r) = chosen r \<and>
   startedAt (fold dataavailable_listener ds r) = startedAt r"
  by (induction ds arbitrary: r rule: emitted_nonempty.induct)
     (simp_all add: dataavailable_listener_def)

text \<open>
  C10. After any sequence \<open>ds\<close> of "dataavailable" events on a recorder made by
  \<open>recordVideo\<close>, \<open>chunks\<close> holds exactly the non-empty chunks of \<open>ds\<close>, in the order of
  their events; the "stop" listener then fulfils \<open>done\<close> with a result whose blob is the
  concatenation of these chunks, and when there is none, the promise is fulfilled all the
  same, with a blob of size 0.
\<close>

theorem empty_chunks_discarded:
  "chunks (fold dataavailable_listener ds (recordVideo P now s d)) = emitted_nonempty ds \<and>
   donePromise (stop_listener t (fold dataavailable_listener ds (recordVideo P now s d))) =
     Fulfilled (stop_result t (fold dataavailable_listener ds (recordVideo P now s d))) \<and>
   bytes (blob (stop_result t (fold dataavailable_listener ds (recordVideo P now s d)))) =
     concat (map bytes (emitted_nonempty ds)) \<and>
   (emitted_nonempty ds = [] \<longrightarrow>
      blob_size (blob (stop_result t (fold dataavailable_listener ds (recordVideo P now s d)))) = 0)"
proof -
  let ?r = "fold dataavailable_listener ds (recordVideo P now s d)"
  have c: "chunks ?r = emitted_nonempty ds"
    by (simp add: data_chunks recordVideo_def Let_def)
  have p: "donePromise ?r = Pending"
    by (simp add: data_other_fields recordVideo_def Let_def)
  have b: "bytes (blob (stop_result t ?r)) = concat (map bytes (emitted_nonempty ds))"
    by (simp add: stop_result_def new_Blob_def c)
  show ?thesis
    using c p b by (simp add: stop_listener_def resolve_def blob_size_def)
qed

theorem empty_chunks_discarded_witness:
  "emitted_nonempty [Some empty_chunk, None, Some empty_chunk] = [] \<and>
   blob_size (blob (stop_result 2000
     (fold dataavailable_listener [Some empty_chunk, None, Some empty_chunk]
        (recordVideo P_none 0 0 None)))) = 0 \<and>
   donePromise (stop_listener 2000
     (fold dataavailable_listener [Some empty_chunk, None, Some empty_chunk]
        (recordVideo P_none 0 0 None))) =
     Fulfilled \<lparr>blob = \<lparr>bytes = [], btype = ''video/x-matroska;codecs=avc1''\<rparr>,
                mimeType = ''video/x-matroska;codecs=avc1'', durationMs = 2000\<rparr>"
proof -
  have e: "emitted_nonempty [Some empty_chunk, None, Some empty_chunk] = []"
    by (simp add: empty_chunk_def blob_size_def)
  have r: "stop_result 2000
     (fold dataavailable_listener [Some empty_chunk, None, Some empty_chunk]
        (recordVideo P_none 0 0 None)) =
     \<lparr>blob = \<lparr>bytes = [], btype = ''video/x-matroska;codecs=avc1''\<rparr>,
      mimeType = ''video/x-matroska;codecs=avc1'', durationMs = 2000\<rparr>"
    by code_simp
  from empty_chunks_discarded[of "[Some empty_chunk, None, Some empty_chunk]" P_none 0 0 None 2000]
    e r
  show ?thesis by simp
qed

text \<open>
  On the page: a recording that delivers only empty chunks and is stopped by the Stop
  button ends with a stored result of size 0 and the save section shown.
\<close>

lemma empty_capture_completes:
  "recordedVideo (run P_webm
      [TestClick plank, StartCameraClick, CameraGranted 1, StartRecordClick 100,
       DataAvailable 0 (Some empty_chunk), StopRecordClick, DataAvailable 0 (Some empty_chunk),
       RecorderStop 0 2100] loaded) =
     Some \<lparr>blob = \<lparr>bytes = [], btype = ''video/webm''\<rparr>,
           mimeType = ''video/webm'', durationMs = 2000\<rparr> \<and>
   saveSection_shown (run P_webm
      [TestClick plank, StartCameraClick, CameraGranted 1, StartRecordClick 100,
       DataAvailable 0 (Some empty_chunk), StopRecordClick, DataAvailable 0 (Some empty_chunk),
       RecorderStop 0 2100] loaded)"
  by code_simp

subsection \<open>Codec selection\<close>

lemma pick_explicit:
  "pickBestMimeType supported =
     (if supported ''video/webm;codecs=vp9'' then Some ''video/webm;codecs=vp9''
      else if supported ''video/webm;codecs=vp8'' then Some ''video/webm;codecs=vp8''
      else if supported ''video/webm'' then Some ''video/webm''
      else if supported ''video/mp4'' then Some ''video/mp4''
      else None)"
  by (simp add: pickBestMimeType_def candidates_def)

lemma pick_truthy: "truthy (pickBestMimeType supported) = (pickBestMimeType supported \<noteq> None)"
  by (simp add: pick_explicit truthy_def)

text \<open>
  C6, as the claim states it, fails: on a browser whose recorder reports an empty
  \<open>mimeType\<close>, the result carries the requested type, which is not what the recorder
  reports.
\<close>

theorem reported_type_counterexample:
  "mimeType (stop_result 1000 (recordVideo P_vp9_silent 0 0 None)) = ''video/webm;codecs=vp9'' \<and>
   chosen (recordVideo P_vp9_silent 0 0 None) = Some ''video/webm;codecs=vp9'' \<and>
   rmimeType (recordVideo P_vp9_silent 0 0 None) = [] \<and>
   mimeType (stop_result 1000 (recordVideo P_vp9_silent 0 0 None)) \<noteq>
     rmimeType (recordVideo P_vp9_silent 0 0 None)"
  by code_simp

text \<open>
  C6, amended. \<open>pickBestMimeType\<close> returns the first supported type of the list vp9 webm,
  vp8 webm, plain webm, mp4, and nothing when none is supported; the recorder is built
  with that type, or without a type option, so that the browser takes its default. The
  \<open>mimeType\<close> of the result is the type the recorder reports when that is not empty;
  otherwise it is the requested type, or \<open>video/webm\<close> when none was requested.
\<close>

theorem codec_selection_and_reported_type:
  "pickBestMimeType supported =
     (if supported ''video/webm;codecs=vp9'' then Some ''video/webm;codecs=vp9''
      else if supported ''video/webm;codecs=vp8'' then Some ''video/webm;codecs=vp8''
      else if supported ''video/webm'' then Some ''video/webm''
      else if supported ''video/mp4'' then Some ''video/mp4''
      else None) \<and>
   chosen (recordVideo P now s d) = pickBestMimeType (isTypeSupported P) \<and>
   rmimeType (recordVideo P now s d) = reportedMimeType P (pickBestMimeType (isTypeSupported P)) \<and>
   mimeType (stop_result t (fold dataavailable_listener ds (recordVideo P now s d))) =
     (if rmimeType (recordVideo P now s d) \<noteq> [] then rmimeType (recordVideo P now s d)
      else case pickBestMimeType (isTypeSupported P) of
             Some c \<Rightarrow> c
           | None \<Rightarrow> ''video/webm'')"
proof -
  let ?c = "pickBestMimeType (isTypeSupported P)"
  have a: "chosen (recordVideo P now s d) = ?c"
    by (simp add: recordVideo_def Let_def)
  have t: "truthy ?c = (?c \<noteq> None)" by (rule pick_truthy)
  have b: "rmimeType (recordVideo P now s d) = reportedMimeType P ?c"
    using t by (cases ?c) (auto simp: recordVideo_def Let_def)
  have c: "mimeType (stop_result t (fold dataavailable_listener ds (recordVideo P now s d))) =
     (if rmimeType (recordVideo P now s d) \<noteq> [] then rmimeType (recordVideo P now s d)
      else case ?c of Some c \<Rightarrow> c | None \<Rightarrow> ''video/webm'')"
    using t by (cases ?c) (auto simp: stop_result_def actualMimeType_def data_other_fields a)
  show ?thesis using a b c pick_explicit[of supported] by simp
qed

subsection \<open>The recording result\<close>

lemma ascii_lower_id: "(ascii_lower c = c) = (\<not> is_upper c)"
proof (cases "is_upper c")
  case True
  have h: "(of_char (char_of ((of_char c :: nat) + 0x20)) :: nat) = of_char c + 0x20"
    using True by (simp add: is_upper_def)
  have "char_of ((of_char c :: nat) + 0x20) \<noteq> c"
  proof
    assume "char_of ((of_char c :: nat) + 0x20) = c"
    then have e: "(of_char (char_of ((of_char c :: nat) + 0x20)) :: nat) = of_char c"
      by (rule arg_cong)
    have "(of_char c :: nat) + 0x20 = of_char c"
      using h[symmetric] e by (rule trans)
    then show False by simp
  qed
  then show ?thesis using True by (simp add: ascii_lower_def)
next
  case False
  then show ?thesis by (simp add: ascii_lower_def)
qed

lemma map_ascii_lower_id: "(map ascii_lower t = t) = (\<not> list_ex is_upper t)"
  by (induction t) (simp_all add: ascii_lower_id)

lemma normalize_type_id:
  "(normalize_type t = t) = (list_all printable t \<and> \<not> list_ex is_upper t)"
proof (cases "list_all printable t")
  case True
  then show ?thesis by (simp add: normalize_type_def map_ascii_lower_id)
next
  case False
  then have "t \<noteq> []" by auto
  then show ?thesis using False by (auto simp: normalize_type_def)
qed

lemma candidates_normal:
  "normalize_type ''video/webm;codecs=vp9'' = ''video/webm;codecs=vp9''"
  "normalize_type ''video/webm;codecs=vp8'' = ''video/webm;codecs=vp8''"
  "normalize_type ''video/webm'' = ''video/webm''"
  "normalize_type ''video/mp4'' = ''video/mp4''"
  by code_simp+

text \<open>
  C9, as the claim states it, fails: on a browser whose recorder reports
  \<open>video/mp4;codecs=avc1.42E01E\<close>, the result's \<open>mimeType\<close> is that string, while the
  type of its blob is the same string in lower case.
\<close>

theorem blob_type_counterexample:
  "mimeType (stop_result 1000 (recordVideo P_mp4 0 0 None)) = ''video/mp4;codecs=avc1.42E01E'' \<and>
   btype (blob (stop_result 1000 (recordVideo P_mp4 0 0 None))) =
     ''video/mp4;codecs=avc1.42e01e'' \<and>
   btype (blob (stop_result 1000 (recordVideo P_mp4 0 0 None))) \<noteq>
     mimeType (stop_result 1000 (recordVideo P_mp4 0 0 None))"
  by code_simp

text \<open>
  C9, amended. In the result that the "stop" listener of \<open>recordVideo\<close> builds, the blob
  is constructed with the string of the field \<open>mimeType\<close> as its type option, so the
  blob's type is that string as the Blob constructor normalises it. The two are equal
  exactly when \<open>mimeType\<close> consists of characters in U+0020 to U+007E and has no upper-case
  ASCII letter. That is so whenever the recorder reports no type of its own (the result
  then carries one of the four candidates or \<open>video/webm\<close>), and always in the result built
  by \<open>onstop\<close> of the earlier \<open>recordVideo\<close>.
\<close>

theorem blob_type_is_normalized_mimeType:
  "btype (blob (stop_result endedAt r)) = normalize_type (mimeType (stop_result endedAt r)) \<and>
   (btype (blob (stop_result endedAt r)) = mimeType (stop_result endedAt r)) =
     (list_all printable (mimeType (stop_result endedAt r)) \<and>
      \<not> list_ex is_upper (mimeType (stop_result endedAt r))) \<and>
   (rmimeType (recordVideo P now s d) = [] \<longrightarrow>
      btype (blob (stop_result endedAt (fold dataavailable_listener ds (recordVideo P now s d)))) =
        mimeType (stop_result endedAt (fold dataavailable_listener ds (recordVideo P now s d)))) \<and>
   btype (blob (onstop_v1 supported cs started endedAt)) =
     mimeType (onstop_v1 supported cs started endedAt)"
proof -
  have 1: "btype (blob (stop_result endedAt r)) = normalize_type (mimeType (stop_result endedAt r))"
    by (simp add: stop_result_def new_Blob_def)
  have 2: "(btype (blob (stop_result endedAt r)) = mimeType (stop_result endedAt r)) =
     (list_all printable (mimeType (stop_result endedAt r)) \<and>
      \<not> list_ex is_upper (mimeType (stop_result endedAt r)))"
    unfolding 1 by (rule normalize_type_id)
  let ?r = "fold dataavailable_listener ds (recordVideo P now s d)"
  have 3: "btype (blob (stop_result endedAt ?r)) = mimeType (stop_result endedAt ?r)"
    if e: "rmimeType (recordVideo P now s d) = []"
  proof -
    have c: "chosen ?r = pickBestMimeType (isTypeSupported P)" "rmimeType ?r = []"
      using e by (simp_all add: data_other_fields recordVideo_def Let_def)
    have "mimeType (stop_result endedAt ?r) \<in>
            {''video/webm;codecs=vp9'', ''video/webm;codecs=vp8'', ''video/webm'', ''video/mp4''}"
      by (simp add: stop_result_def actualMimeType_def c truthy_def pick_explicit)
    then have "normalize_type (mimeType (stop_result endedAt ?r)) = mimeType (stop_result endedAt ?r)"
      using candidates_normal by auto
    then show ?thesis by (simp add: stop_result_def new_Blob_def)
  qed
  have "mimeType_v1 supported \<in>
          {''video/webm;codecs=vp9'', ''video/webm;codecs=vp8'', ''video/webm''}"
    by (simp add: mimeType_v1_def)
  then have "normalize_type (mimeType_v1 supported) = mimeType_v1 supported"
    using candidates_normal by auto
  then have 4: "btype (blob (onstop_v1 supported cs started endedAt)) =
     mimeType (onstop_v1 supported cs started endedAt)"
    by (simp add: onstop_v1_def new_Blob_def)
  show ?thesis using 1 2 3 4 by blast
qed

theorem blob_type_is_normalized_mimeType_witness:
  "rmimeType (recordVideo P_vp9_silent 0 0 None) = [] \<and>
   mimeType (stop_result 1000 (fold dataavailable_listener [Some chunk1]
      (recordVideo P_vp9_silent 0 0 None))) = ''video/webm;codecs=vp9'' \<and>
   btype (blob (stop_result 1000 (fold dataavailable_listener [Some chunk1]
      (recordVideo P_vp9_silent 0 0 None)))) = ''video/webm;codecs=vp9''"
proof -
  have e: "rmimeType (recordVideo P_vp9_silent 0 0 None) = []" by code_simp
  have m: "mimeType (stop_result 1000 (fold dataavailable_listener [Some chunk1]
      (recordVideo P_vp9_silent 0 0 None))) = ''video/webm;codecs=vp9''" by code_simp
  from blob_type_is_normalized_mimeType[of 1000 "recordVideo P_vp9_silent 0 0 None"
      P_vp9_silent 0 0 None "[Some chunk1]" "\<lambda>t. False" "[]" 0] e m
  show ?thesis by (simp add: candidates_normal)
qed

subsection \<open>The recording session\<close>

text \<open>A click on Start Record with a live, unreleased current stream starts a session.\<close>

lemma startRecord_enters_session:
  assumes "currentStream a = Some s" and "s < length (streams a)"
    and "releases (streams a ! s) = 0" and "\<not> startRecordBtn_disabled a"
  shows "recording_session (length (recorders a)) s (step P (StartRecordClick now) a)"
  using assms
  by (simp add: recording_session_def startRecord_click_def recordVideo_def Let_def nth_append)

lemma session_inv_start: "recording_session r s a \<Longrightarrow> session_inv r s False False False a"
  by (simp add: recording_session_def session_inv_def)

lemma inv_data:
  "session_inv r s T B C a \<Longrightarrow> session_inv r s T B C (dataavailable_event r d a)"
  by (cases T; cases B; cases C)
     (auto simp: session_inv_def dataavailable_event_def dataavailable_listener_def
           split: option.splits)

lemma inv_timer:
  "session_inv r s T B C a \<Longrightarrow> session_inv r s True B C (timeout_event r a)"
  by (cases T; cases B; cases C)
     (auto simp: session_inv_def timeout_event_def timeout_callback_def recorder_stop_def)

lemma inv_stopclick:
  "session_inv r s T B C a \<Longrightarrow> session_inv r s True B C (step P StopRecordClick a)"
  by (cases T; cases B; cases C)
     (auto simp: session_inv_def stopRecord_click_def controller_stop_def recorder_stop_def)

lemma inv_back:
  "session_inv r s T B C a \<Longrightarrow> session_inv r s True True C (back_click a)"
  by (cases T; cases B; cases C)
     (auto simp: session_inv_def back_click_def resetRecorder_def controller_stop_def
                 recorder_stop_def stopCamera_at_def stopCamera_def Let_def
           split: option.splits)

lemma inv_stop:
  "session_inv r s T B C a \<Longrightarrow> session_inv r s T B (C \<or> T) (stop_event r t a)"
  by (cases T; cases B; cases C)
     (auto simp: session_inv_def stop_event_def stop_listener_def resolve_def done_then_def
                 setPreviewFromBlob_def stopCamera_at_def stopCamera_def Let_def
           split: option.splits)

lemma inv_step:
  assumes "session_inv r s T B C a" and "session_event r e"
  shows "session_inv r s (T \<or> termination_request r e) (B \<or> e = BackClick)
           (C \<or> (T \<and> is_stop_event r e)) (step P e a)"
proof (cases e)
  case (DataAvailable i d)
  with assms show ?thesis by (simp add: inv_data)
next
  case (RecorderStop i t)
  with assms show ?thesis using inv_stop[of r s T B C a t] by simp
next
  case (AutoStopTimer i)
  with assms show ?thesis using inv_timer[of r s T B C a] by simp
next
  case StopRecordClick
  with assms(1) show ?thesis using inv_stopclick[of r s T B C a P] by simp
next
  case BackClick
  with assms(1) show ?thesis using inv_back[of r s T B C a] by simp
qed (use assms(2) in simp_all)

lemma inv_run:
  "session_inv r s T B C a \<Longrightarrow> \<forall>e\<in>set es. session_event r e \<Longrightarrow>
   session_inv r s (T \<or> (\<exists>e\<in>set es. termination_request r e)) (B \<or> BackClick \<in> set es)
     (C \<or> confirmed_from r T es) (run P es a)"
proof (induction es arbitrary: T B C a)
  case Nil
  then show ?case by (simp add: run_def)
next
  case (Cons e es)
  have e: "session_event r e" and es: "\<forall>e\<in>set es. session_event r e"
    using Cons.prems(2) by simp_all
  have "session_inv r s (T \<or> termination_request r e) (B \<or> e = BackClick)
          (C \<or> (T \<and> is_stop_event r e)) (step P e a)"
    by (rule inv_step[OF Cons.prems(1) e])
  from Cons.IH[OF this es]
  have "session_inv r s ((T \<or> termination_request r e) \<or> (\<exists>e\<in>set es. termination_request r e))
          ((B \<or> e = BackClick) \<or> BackClick \<in> set es)
          ((C \<or> (T \<and> is_stop_event r e)) \<or> confirmed_from r (T \<or> termination_request r e) es)
          (run P es (step P e a))" .
  moreover have "((T \<or> termination_request r e) \<or> (\<exists>e\<in>set es. termination_request r e)) =
                 (T \<or> (\<exists>x\<in>set (e # es). termination_request r x))" by auto
  moreover have "((B \<or> e = BackClick) \<or> BackClick \<in> set es) = (B \<or> BackClick \<in> set (e # es))"
    by auto
  moreover have "((C \<or> (T \<and> is_stop_event r e)) \<or>
                    confirmed_from r (T \<or> termination_request r e) es) =
                 (C \<or> confirmed_from r T (e # es))" by auto
  ultimately show ?case by (simp add: run_def)
qed

lemma confirmed_from_mono: "confirmed_from r T es \<Longrightarrow> confirmed_from r True es"
  by (induction es arbitrary: T) auto

lemma confirmed_from_stop:
  "T \<or> (\<exists>e\<in>set es. termination_request r e) \<Longrightarrow>
   confirmed_from r T (es @ [RecorderStop r t])"
  by (induction es arbitrary: T) auto

text \<open>
  C3. From the start of a recording, after any sequence \<open>es\<close> of the session's events (the
  timeout, clicks on Stop and Back, data and the "stop" event, in any order and number):
  \<open>recorder.stop()\<close> has been called once if a timeout, Stop or Back was among them, and
  not at all otherwise, whatever their number. \<open>done\<close> is fulfilled if the recorder's
  "stop" event has come after such a request, and pending otherwise. \<open>stopCamera\<close> has
  run on the session's stream once if Back was clicked or the "stop" event has come after
  a request, and not at all otherwise; once it has run, no track is live and no stream is
  current. In particular, when any request is followed by the recorder's "stop" event,
  \<open>done\<close> is fulfilled, one stop was signalled and the stream was released once.
\<close>

theorem one_stop_signal_one_release:
  assumes "recording_session r s a" and "\<forall>e\<in>set es. session_event r e"
  shows "stopSignals (recorders (run P es a) ! r) =
           (if \<exists>e\<in>set es. termination_request r e then 1 else 0) \<and>
         (if stop_confirmed r es
          then \<exists>res. donePromise (recorders (run P es a) ! r) = Fulfilled res
          else donePromise (recorders (run P es a) ! r) = Pending) \<and>
         releases (streams (run P es a) ! s) =
           (if BackClick \<in> set es \<or> stop_confirmed r es then 1 else 0) \<and>
         (BackClick \<in> set es \<or> stop_confirmed r es \<longrightarrow>
            currentStream (run P es a) = None \<and>
            True \<notin> set (tracks (streams (run P es a) ! s))) \<and>
         ((\<exists>e\<in>set es. termination_request r e) \<longrightarrow>
            (\<exists>res. donePromise (recorders (run P (es @ [RecorderStop r t]) a) ! r) =
                     Fulfilled res) \<and>
            stopSignals (recorders (run P (es @ [RecorderStop r t]) a) ! r) = 1 \<and>
            releases (streams (run P (es @ [RecorderStop r t]) a) ! s) = 1)"
proof -
  have 0: "session_inv r s False False False a" using assms(1) by (rule session_inv_start)
  from inv_run[OF 0 assms(2), of P]
  have i: "session_inv r s (\<exists>e\<in>set es. termination_request r e) (BackClick \<in> set es)
             (stop_confirmed r es) (run P es a)"
    by (simp add: stop_confirmed_def)
  have 1: "stopSignals (recorders (run P es a) ! r) =
           (if \<exists>e\<in>set es. termination_request r e then 1 else 0)"
    using i by (simp add: session_inv_def)
  have 2: "if stop_confirmed r es
          then \<exists>res. donePromise (recorders (run P es a) ! r) = Fulfilled res
          else donePromise (recorders (run P es a) ! r) = Pending"
    using i by (simp add: session_inv_def)
  have 3: "releases (streams (run P es a) ! s) =
           (if BackClick \<in> set es \<or> stop_confirmed r es then 1 else 0)"
    using i by (simp add: session_inv_def)
  have 4: "BackClick \<in> set es \<or> stop_confirmed r es \<longrightarrow>
            currentStream (run P es a) = None \<and>
            True \<notin> set (tracks (streams (run P es a) ! s))"
    using i by (simp add: session_inv_def)
  have 5: "(\<exists>res. donePromise (recorders (run P (es @ [RecorderStop r t]) a) ! r) =
                     Fulfilled res) \<and>
            stopSignals (recorders (run P (es @ [RecorderStop r t]) a) ! r) = 1 \<and>
            releases (streams (run P (es @ [RecorderStop r t]) a) ! s) = 1"
    if q: "\<exists>e\<in>set es. termination_request r e"
  proof -
    have e: "\<forall>e\<in>set (es @ [RecorderStop r t]). session_event r e" using assms(2) by simp
    have c: "stop_confirmed r (es @ [RecorderStop r t])"
      using q confirmed_from_stop[of False es r t] by (simp add: stop_confirmed_def)
    have q': "\<exists>e\<in>set (es @ [RecorderStop r t]). termination_request r e" using q by auto
    from inv_run[OF 0 e, of P]
    have "session_inv r s True (BackClick \<in> set es) True (run P (es @ [RecorderStop r t]) a)"
      using c q' by (simp add: stop_confirmed_def)
    then show ?thesis by (simp add: session_inv_def)
  qed
  show ?thesis using 1 2 3 4 5 by blast
qed

lemma session_start_ok: "recording_session 0 0 session_start"
  by code_simp

theorem one_stop_signal_one_release_witness:
  "recording_session 0 0 session_start \<and>
   list_all (session_event 0)
     [DataAvailable 0 (Some chunk1), AutoStopTimer 0, StopRecordClick, StopRecordClick] \<and>
   list_ex (termination_request 0)
     [DataAvailable 0 (Some chunk1), AutoStopTimer 0, StopRecordClick, StopRecordClick] \<and>
   \<not> stop_confirmed 0
     [DataAvailable 0 (Some chunk1), AutoStopTimer 0, StopRecordClick, StopRecordClick] \<and>
   stopSignals (recorders (run P_webm
     [DataAvailable 0 (Some chunk1), AutoStopTimer 0, StopRecordClick, StopRecordClick]
     session_start) ! 0) = 1 \<and>
   donePromise (recorders (run P_webm
     [DataAvailable 0 (Some chunk1), AutoStopTimer 0, StopRecordClick, StopRecordClick]
     session_start) ! 0) = Pending \<and>
   releases (streams (run P_webm
     [DataAvailable 0 (Some chunk1), AutoStopTimer 0, StopRecordClick, StopRecordClick]
     session_start) ! 0) = 0 \<and>
   stopSignals (recorders (run P_webm
     ([DataAvailable 0 (Some chunk1), AutoStopTimer 0, StopRecordClick, StopRecordClick] @
      [RecorderStop 0 90010]) session_start) ! 0) = 1 \<and>
   releases (streams (run P_webm
     ([DataAvailable 0 (Some chunk1), AutoStopTimer 0, StopRecordClick, StopRecordClick] @
      [RecorderStop 0 90010]) session_start) ! 0) = 1"
proof -
  let ?es = "[DataAvailable 0 (Some chunk1), AutoStopTimer 0, StopRecordClick, StopRecordClick]"
  have s: "recording_session 0 0 session_start" by (rule session_start_ok)
  have e: "\<forall>e\<in>set ?es. session_event 0 e" by simp
  have q: "\<exists>e\<in>set ?es. termination_request 0 e" by simp
  have b: "BackClick \<notin> set ?es" by simp
  have c: "\<not> stop_confirmed 0 ?es" by (simp add: stop_confirmed_def)
  from one_stop_signal_one_release[OF s e, of P_webm 90010] s q b c
  show ?thesis by simp
qed

text \<open>
  C4, as the claim states it, fails: after a recorder error and the "stop" event that
  follows it, \<open>done\<close> is rejected, but the stream is still the current stream, its
  track is live and \<open>stopCamera\<close> has not run.
\<close>

theorem error_release_counterexample:
  "donePromise (recorders (run P_webm error_trace loaded) ! 0) = Rejected ''MediaRecorder error'' \<and>
   currentStream (run P_webm error_trace loaded) = Some 0 \<and>
   streams (run P_webm error_trace loaded) = [\<lparr>tracks = [True], releases = 0\<rparr>]"
  by code_simp

text \<open>
  C4, amended. A recorder error during a recording rejects \<open>done\<close> with the error
  "MediaRecorder error". The handler of the rejection reports "Recording failed.",
  disables Stop and enables Start Record and Start Camera again; it does not release the
  camera: the streams are untouched and the session's stream stays the current one, also
  after the recorder's "stop" event. The stream is released by the next click on Back or
  on Start Camera.
\<close>

theorem error_leaves_camera_acquired:
  assumes "recording_session r s a"
  shows "donePromise (recorders (step P (RecorderError r) a) ! r) = Rejected ''MediaRecorder error'' \<and>
         alerts (step P (RecorderError r) a) = alerts a @ [''Recording failed.''] \<and>
         streams (step P (RecorderError r) a) = streams a \<and>
         currentStream (step P (RecorderError r) a) = Some s \<and>
         \<not> startRecordBtn_disabled (step P (RecorderError r) a) \<and>
         \<not> startCameraBtn_disabled (step P (RecorderError r) a) \<and>
         stopRecordBtn_disabled (step P (RecorderError r) a) \<and>
         streams (step P (RecorderStop r t) (step P (RecorderError r) a)) = streams a \<and>
         currentStream (step P (RecorderStop r t) (step P (RecorderError r) a)) = Some s \<and>
         donePromise (recorders (step P (RecorderStop r t) (step P (RecorderError r) a)) ! r) =
           Rejected ''MediaRecorder error'' \<and>
         releases (streams (step P BackClick (step P (RecorderError r) a)) ! s) = 1 \<and>
         releases (streams (step P StartCameraClick (step P (RecorderError r) a)) ! s) = 1"
proof -
  let ?a = "step P (RecorderError r) a"
  have e: "?a = done_catch (a\<lparr>recorders := (recorders a)
              [r := (recorders a ! r)\<lparr>rstate := inactive, stopQueued := True,
                                       donePromise := Rejected ''MediaRecorder error''\<rparr>]\<rparr>)"
    using assms
    by (simp add: recording_session_def error_event_def error_listener_def reject_def Let_def)
  have 1: "donePromise (recorders ?a ! r) = Rejected ''MediaRecorder error''"
    "alerts ?a = alerts a @ [''Recording failed.'']" "streams ?a = streams a"
    "currentStream ?a = Some s" "\<not> startRecordBtn_disabled ?a" "\<not> startCameraBtn_disabled ?a"
    "stopRecordBtn_disabled ?a" "r < length (recorders ?a)" "stopQueued (recorders ?a ! r)"
    "rstate (recorders ?a ! r) = inactive" "currentRecording ?a = Some r"
    unfolding e using assms by (simp_all add: recording_session_def done_catch_def)
  have 2: "streams (step P (RecorderStop r t) ?a) = streams a \<and>
           currentStream (step P (RecorderStop r t) ?a) = Some s \<and>
           donePromise (recorders (step P (RecorderStop r t) ?a) ! r) = Rejected ''MediaRecorder error''"
    using 1 by (simp add: stop_event_def stop_listener_def resolve_def Let_def)
  have 3: "releases (streams (step P BackClick ?a) ! s) = 1"
    using 1 assms
    by (simp add: back_click_def resetRecorder_def stopCamera_at_def stopCamera_def Let_def
                  recording_session_def split: option.splits)
  have 4: "releases (streams (step P StartCameraClick ?a) ! s) = 1"
    using 1 assms
    by (simp add: startCamera_click_def stopCamera_at_def stopCamera_def Let_def
                  recording_session_def)
  show ?thesis using 1 2 3 4 by simp
qed

theorem error_leaves_camera_acquired_witness:
  "recording_session 0 0 session_start \<and>
   donePromise (recorders (step P_webm (RecorderError 0) session_start) ! 0) =
     Rejected ''MediaRecorder error'' \<and>
   streams (step P_webm (RecorderStop 0 1500) (step P_webm (RecorderError 0) session_start)) =
     streams session_start \<and>
   releases (streams (step P_webm BackClick (step P_webm (RecorderError 0) session_start)) ! 0) = 1"
  using error_leaves_camera_acquired[OF session_start_ok, of P_webm 1500] session_start_ok
  by simp

text \<open>
  C5. \<open>recordVideo\<close> sets one timeout, at \<open>maxDurationMs\<close>, or at 90000 when the
  argument is left out. When the timeout runs while the recorder still records (no Stop
  or Back came first), it stops the recorder: the recorder is inactive, its "stop" event
  is queued, one more stop has been signalled, and the timeout is gone, so that it cannot
  run again. A click on Stop after that changes nothing.
\<close>

theorem auto_stop_timer:
  "timeout (recordVideo P now s None) = Some 90000 \<and>
   timeout (recordVideo P now s (Some d)) = Some d \<and>
   rstate (recordVideo P now s (Some d)) = recording \<and>
   (r < length (recorders a) \<and> rstate (recorders a ! r) = recording \<and>
    timeout (recorders a ! r) \<noteq> None \<and> currentRecording a = Some r \<longrightarrow>
      rstate (recorders (step P (AutoStopTimer r) a) ! r) = inactive \<and>
      stopQueued (recorders (step P (AutoStopTimer r) a) ! r) \<and>
      stopSignals (recorders (step P (AutoStopTimer r) a) ! r) =
        Suc (stopSignals (recorders a ! r)) \<and>
      timeout (recorders (step P (AutoStopTimer r) a) ! r) = None \<and>
      step P (AutoStopTimer r) (step P (AutoStopTimer r) a) = step P (AutoStopTimer r) a \<and>
      step P StopRecordClick (step P (AutoStopTimer r) a) = step P (AutoStopTimer r) a)"
proof -
  have 1: "timeout (recordVideo P now s None) = Some 90000 \<and>
   timeout (recordVideo P now s (Some d)) = Some d \<and>
   rstate (recordVideo P now s (Some d)) = recording"
    by (simp add: recordVideo_def Let_def)
  have 2: "rstate (recorders (step P (AutoStopTimer r) a) ! r) = inactive \<and>
      stopQueued (recorders (step P (AutoStopTimer r) a) ! r) \<and>
      stopSignals (recorders (step P (AutoStopTimer r) a) ! r) =
        Suc (stopSignals (recorders a ! r)) \<and>
      timeout (recorders (step P (AutoStopTimer r) a) ! r) = None \<and>
      step P (AutoStopTimer r) (step P (AutoStopTimer r) a) = step P (AutoStopTimer r) a \<and>
      step P StopRecordClick (step P (AutoStopTimer r) a) = step P (AutoStopTimer r) a"
    if h: "r < length (recorders a)" "rstate (recorders a ! r) = recording"
      "timeout (recorders a ! r) \<noteq> None" "currentRecording a = Some r"
  proof -
    let ?a = "step P (AutoStopTimer r) a"
    have e: "?a = a\<lparr>recorders := (recorders a)
               [r := (recorders a ! r)\<lparr>timeout := None, rstate := inactive, stopQueued := True,
                                        stopSignals := Suc (stopSignals (recorders a ! r))\<rparr>]\<rparr>"
      using h by (simp add: timeout_event_def timeout_callback_def recorder_stop_def)
    have f: "rstate (recorders ?a ! r) = inactive" "stopQueued (recorders ?a ! r)"
      "stopSignals (recorders ?a ! r) = Suc (stopSignals (recorders a ! r))"
      "timeout (recorders ?a ! r) = None" "r < length (recorders ?a)"
      "currentRecording ?a = Some r"
      unfolding e using h by simp_all
    have g: "step P (AutoStopTimer r) ?a = ?a"
      using f by (simp add: timeout_event_def)
    have k: "step P StopRecordClick ?a = ?a"
      using f by (simp add: stopRecord_click_def controller_stop_def)
    show ?thesis using f g k by simp
  qed
  show ?thesis using 1 2 by blast
qed

theorem auto_stop_timer_witness:
  "0 < length (recorders session_start) \<and> rstate (recorders session_start ! 0) = recording \<and>
   timeout (recorders session_start ! 0) = Some 90000 \<and>
   currentRecording session_start = Some 0 \<and>
   rstate (recorders (step P_webm (AutoStopTimer 0) session_start) ! 0) = inactive \<and>
   stopSignals (recorders (step P_webm (AutoStopTimer 0) session_start) ! 0) = 1 \<and>
   step P_webm StopRecordClick (step P_webm (AutoStopTimer 0) session_start) =
     step P_webm (AutoStopTimer 0) session_start"
proof -
  have h: "0 < length (recorders session_start) \<and> rstate (recorders session_start ! 0) = recording \<and>
   timeout (recorders session_start ! 0) = Some 90000 \<and>
   currentRecording session_start = Some 0 \<and> stopSignals (recorders session_start ! 0) = 0"
    by code_simp
  from auto_stop_timer[of P_webm 0 0 0 0 session_start] h
  show ?thesis by simp
qed

subsection \<open>Cancelling\<close>

text \<open>
  In every recording session, a click on Back leaves \<open>isCancelling\<close> cleared, and the
  "stop" event that follows stores the result and shows the save section.
\<close>

lemma back_then_stop_keeps_result:
  assumes "recording_session r s a"
  shows "\<not> isCancelling (step P BackClick a) \<and>
         recordedVideo (step P BackClick a) = None \<and>
         recordedVideo (step P (RecorderStop r t) (step P BackClick a)) =
           Some (stop_result t (recorders a ! r)) \<and>
         saveSection_shown (step P (RecorderStop r t) (step P BackClick a))"
proof -
  let ?b = "step P BackClick a"
  have b: "\<not> isCancelling ?b" "recordedVideo ?b = None" "r < length (recorders ?b)"
    "stopQueued (recorders ?b ! r)" "donePromise (recorders ?b ! r) = Pending"
    "stop_result t ((recorders ?b ! r)\<lparr>stopQueued := False\<rparr>) = stop_result t (recorders a ! r)"
    using assms
    by (simp_all add: recording_session_def back_click_def resetRecorder_def controller_stop_def
                      recorder_stop_def stopCamera_at_def Let_def stop_result_def
                      actualMimeType_def split: option.splits)
  have "recordedVideo (stop_event r t ?b) = Some (stop_result t (recorders a ! r)) \<and>
        saveSection_shown (stop_event r t ?b)"
    using b
    by (simp add: stop_event_def done_then_def setPreviewFromBlob_def stopCamera_at_def Let_def
             split: option.splits)
  then show ?thesis using b by simp
qed

text \<open>
  C1. The run \<open>cancel_trace\<close>: Back is clicked while the recorder records. When the
  handler of Back returns, \<open>isCancelling\<close> is \<open>False\<close> again (\<open>resetRecorder\<close> has
  cleared it) and the "stop" event is still to come. When it arrives, the result is not
  ignored: it becomes \<open>recordedVideo\<close>, the preview is set to it and the save section is
  shown.
\<close>

theorem cancelled_result_not_ignored:
  "isCancelling (run P_webm (take 6 cancel_trace) loaded) = False \<and>
   stopQueued (recorders (run P_webm (take 6 cancel_trace) loaded) ! 0) \<and>
   recordedVideo (run P_webm (take 6 cancel_trace) loaded) = None \<and>
   recordedVideo (run P_webm cancel_trace loaded) =
     Some \<lparr>blob = \<lparr>bytes = [26, 69, 223, 26, 69, 223], btype = ''video/webm''\<rparr>,
           mimeType = ''video/webm'', durationMs = 1500\<rparr> \<and>
   saveSection_shown (run P_webm cancel_trace loaded) \<and>
   preview_src (run P_webm cancel_trace loaded) = Some 0"
  by code_simp

text \<open>
  C2. The run \<open>cancel_save_trace\<close>: Back is clicked while the recorder records, the
  next test is opened, and then the "stop" event of the cancelled recording arrives; its
  clip becomes \<open>recordedVideo\<close>, and a click on Save passes an attempt with that clip to
  \<open>saveAttempt\<close>, which stores it.
\<close>

theorem cancelled_clip_saved:
  "stored (dbm (run P_webm cancel_save_trace loaded)) =
     [\<lparr>attempt_id = ''a1'', testType = plank, createdAt = ''2024-05-01T10:00:00.000Z'',
       verified = False, scoreText = ''24 reps'',
       video = Some \<lparr>bytes = [26, 69, 223], btype = ''video/webm''\<rparr>,
       videoMimeType = Some ''video/webm'', videoDurationMs = Some 1500\<rparr>] \<and>
   stored (dbm (run P_webm (take 9 cancel_save_trace) loaded)) = [] \<and>
   alerts (run P_webm cancel_save_trace loaded) = [''Attempt saved!'']"
  by code_simp

end
